theory Spec2Isabelle
  imports Complex_Main
begin

section \<open>Arrow arrays, errors and contexts\<close>

text \<open>
  An Arrow array is a value buffer with a validity bitmap. Every read of a value in the
  source is guarded by \<^verbatim>\<open>IsNull\<close>, so a slot is modelled as an option: \<open>None\<close>
  is a null row, \<open>Some v\<close> a valid row holding \<open>v\<close>. A builder's \<^verbatim>\<open>Append(v)\<close>
  adds \<open>Some v\<close> at the end, \<^verbatim>\<open>AppendNull()\<close> adds \<open>None\<close>.

  A \<^verbatim>\<open>float64\<close> is modelled as a real number: finite values with exact arithmetic.
  Rounding, overflow, infinities and NaN are outside this model. The model and the code
  agree on an input when no operation on it rounds or overflows, as on small integers. They
  differ where one does: on the column \<open>0.1, 0.1, 0.1\<close> the code computes the mean
  \<open>0.10000000000000002\<close> and a standard deviation near \<open>1.39e-17\<close> where the model has
  \<open>0.1\<close> and \<open>0\<close>; on \<open>2^520, -2^520\<close> the squared difference overflows in the code.
  The properties stated of the direct detector below are therefore of two kinds: facts of
  its control flow, its order of comparison and its handling of nulls, which do not depend
  on how an operation rounds, and evaluations on inputs with exact operations or wide
  margins. The lemmas that relate its loops to the population statistics are facts of the
  model, used to prove them.
\<close>

type_synonym float64_array = "real option list"
type_synonym boolean_array = "bool option list"

text \<open>
  The errors of the source are \<^verbatim>\<open>fmt.Errorf\<close> strings; each message is one constructor:
  \<^item> \<open>EmptyInputError\<close>: "empty column provided"
  \<^item> \<open>NoValidDataError\<close>: "no valid values found in column"
  \<^item> \<open>ReadError\<close>: "error reading CSV: ..." / "csv read error: ..."
  \<^item> \<open>NoRecordsError\<close>: "no records found in CSV" / "no data for column ..."
  \<^item> \<open>ColumnNotFoundError\<close>: "column '...' not found in schema" / "column ... not found"
  \<^item> \<open>ColumnIndexError\<close>: "column index ... out of range"
  \<^item> \<open>IndexPanic\<close>: the panic of \<^verbatim>\<open>rec.Column(i)\<close> on an index the batch does not have
  \<^item> \<open>NotFloat64Error\<close>: "input must be Float64 array, got ..."
  \<^item> \<open>ComputeError\<close>: "divide computation: ...", the wrapped error of a compute kernel
  \<^item> \<open>CanceledError\<close>: the error of a cancelled context (\<^verbatim>\<open>context.Canceled\<close>)
\<close>

datatype error =
    EmptyInputError
  | NoValidDataError
  | ReadError
  | NoRecordsError
  | ColumnNotFoundError
  | ColumnIndexError
  | IndexPanic
  | NotFloat64Error
  | ComputeError
  | CanceledError

text \<open>A \<^verbatim>\<open>context.Context\<close>, as far as a callee can observe it: cancelled or not.\<close>

datatype Context = Background | Cancelled

section \<open>The direct two-pass detector (\<^verbatim>\<open>DetectAnomalies\<close> in super.go)\<close>

text \<open>Step 1: the loop that accumulates \<^verbatim>\<open>sum\<close> (here \<open>sumv\<close>) and \<^verbatim>\<open>validCount\<close>.\<close>

fun sum_loop :: "float64_array \<Rightarrow> real \<Rightarrow> nat \<Rightarrow> real \<times> nat" where
  "sum_loop [] sumv validCount = (sumv, validCount)"
| "sum_loop (None # col) sumv validCount = sum_loop col sumv validCount"
| "sum_loop (Some v # col) sumv validCount = sum_loop col (sumv + v) (validCount + 1)"

text \<open>Step 2: the differences from the mean, null where the column is null.\<close>

fun diff_loop :: "float64_array \<Rightarrow> real \<Rightarrow> float64_array" where
  "diff_loop [] mean = []"
| "diff_loop (None # col) mean = None # diff_loop col mean"
| "diff_loop (Some v # col) mean = Some (v - mean) # diff_loop col mean"

text \<open>Step 3: the sum of the squared differences.\<close>

fun sumSquares_loop :: "float64_array \<Rightarrow> real \<Rightarrow> real" where
  "sumSquares_loop [] sumSquares = sumSquares"
| "sumSquares_loop (None # diffs') sumSquares = sumSquares_loop diffs' sumSquares"
| "sumSquares_loop (Some diff # diffs') sumSquares =
     sumSquares_loop diffs' (sumSquares + diff * diff)"

text \<open>The branch \<^verbatim>\<open>stddev == 0\<close>: one \<^verbatim>\<open>false\<close> per row of the column.\<close>

fun false_loop :: "float64_array \<Rightarrow> boolean_array" where
  "false_loop [] = []"
| "false_loop (c # col) = Some False # false_loop col"

text \<open>Step 4: the z-scores.\<close>

fun zscore_loop :: "float64_array \<Rightarrow> real \<Rightarrow> float64_array" where
  "zscore_loop [] stddev = []"
| "zscore_loop (None # diffs') stddev = None # zscore_loop diffs' stddev"
| "zscore_loop (Some diff # diffs') stddev = Some (\<bar>diff\<bar> / stddev) # zscore_loop diffs' stddev"

text \<open>Step 5: the mask; a null z-score is appended as \<^verbatim>\<open>false\<close>.\<close>

fun mask_loop :: "float64_array \<Rightarrow> real \<Rightarrow> boolean_array" where
  "mask_loop [] threshold = []"
| "mask_loop (None # zscores) threshold = Some False # mask_loop zscores threshold"
| "mask_loop (Some z # zscores) threshold = Some (z > threshold) # mask_loop zscores threshold"

text \<open>
  Step 6: the anomalous values. The loop runs over the indices of the column and reads the
  mask at the same index; the mask has one entry per row of the column.
\<close>

fun anomaly_loop :: "float64_array \<Rightarrow> boolean_array \<Rightarrow> float64_array" where
  "anomaly_loop (c # col) (m # mask') =
     (if m \<noteq> None \<and> the m \<and> c \<noteq> None
      then Some (the c) # anomaly_loop col mask'
      else anomaly_loop col mask')"
| "anomaly_loop col mask' = []"

definition DetectAnomalies ::
  "Context \<Rightarrow> float64_array \<Rightarrow> real \<Rightarrow> error + (boolean_array \<times> float64_array)" where
  "DetectAnomalies ctx col threshold =
     (if length col = 0 then Inl EmptyInputError
      else
        let (sumv, validCount) = sum_loop col 0 0 in
        if validCount = 0 then Inl NoValidDataError
        else
          let mean = sumv / real validCount;
              diffs' = diff_loop col mean;
              sumSquares = sumSquares_loop diffs' 0;
              variance = sumSquares / real validCount;
              stddev = sqrt variance
          in if stddev = 0 then Inr (false_loop col, [])
             else
               let zscores = zscore_loop diffs' stddev;
                   mask' = mask_loop zscores threshold;
                   anomalies = anomaly_loop col mask'
               in Inr (mask', anomalies))"



section \<open>Population statistics, as the specification words them\<close>

text \<open>The non-null values of a column, in row order.\<close>

fun non_null :: "float64_array \<Rightarrow> real list" where
  "non_null [] = []"
| "non_null (None # col) = non_null col"
| "non_null (Some v # col) = v # non_null col"

text \<open>
  \<open>mean = sum(non-null values) / count(non-null values)\<close>,
  \<open>variance = sum((v - mean)^2 for non-null v) / count(non-null values)\<close>,
  \<open>stddev = sqrt(variance)\<close>. With no non-null value the statistics are undefined.
\<close>

definition pop_mean :: "float64_array \<Rightarrow> real option" where
  "pop_mean col =
     (if non_null col = [] then None
      else Some (sum_list (non_null col) / real (length (non_null col))))"

definition pop_variance :: "float64_array \<Rightarrow> real option" where
  "pop_variance col =
     (case pop_mean col of
        None \<Rightarrow> None
      | Some mean \<Rightarrow>
          Some (sum_list (map (\<lambda>v. (v - mean)\<^sup>2) (non_null col)) / real (length (non_null col))))"

definition pop_stddev :: "float64_array \<Rightarrow> real option" where
  "pop_stddev col = map_option sqrt (pop_variance col)"

text \<open>The z-score of the glossary: \<open>abs(value - mean) / stddev\<close>.\<close>

definition zscore :: "real \<Rightarrow> real \<Rightarrow> real \<Rightarrow> real" where
  "zscore mean stddev v = \<bar>v - mean\<bar> / stddev"

text \<open>
  The mask of step 5 of the specification, for one row: a null row is \<open>false\<close>, a
  non-null row is \<open>score > threshold\<close>.
\<close>

definition mask_bit :: "real \<Rightarrow> real \<Rightarrow> real \<Rightarrow> real option \<Rightarrow> bool option" where
  "mask_bit mean stddev threshold c =
     (case c of None \<Rightarrow> Some False | Some v \<Rightarrow> Some (zscore mean stddev v > threshold))"

text \<open>A column with its null rows removed entirely.\<close>

definition drop_nulls :: "float64_array \<Rightarrow> float64_array" where
  "drop_nulls col = map Some (non_null col)"

text \<open>The mask bits of the non-null rows of a column, in row order.\<close>

fun non_null_bits :: "float64_array \<Rightarrow> boolean_array \<Rightarrow> boolean_array" where
  "non_null_bits (None # col) (m # mask') = non_null_bits col mask'"
| "non_null_bits (Some v # col) (m # mask') = m # non_null_bits col mask'"
| "non_null_bits col mask' = []"

text \<open>The number of rows a mask flags.\<close>

definition flagged :: "boolean_array \<Rightarrow> nat" where
  "flagged mask' = length (filter (\<lambda>m. m = Some True) mask')"

section \<open>The column extractors (\<^verbatim>\<open>ReadSingleColumn\<close>)\<close>

text \<open>
  A record batch is the list of its columns; the length of a column of a batch is the
  batch's row count. The element type of a column is left open: the extractors do not look
  at it.
\<close>

type_synonym 'a arrow_record = "'a option list list"

definition NumCols :: "'a arrow_record \<Rightarrow> nat" where
  "NumCols rec = length rec"

text \<open>
  The Arrow CSV reader is a library: it is taken as the batches its \<^verbatim>\<open>Next\<close> and
  \<^verbatim>\<open>Record\<close> yield, in file order, and whether \<^verbatim>\<open>Err\<close> is set once \<^verbatim>\<open>Next\<close>
  has returned false. The schema is the list of the field names of the schema the reader was
  given. With the header option, which both packages set, the library names the fields of
  the schema its batches carry (\<^verbatim>\<open>rec.Schema()\<close>) after the header line of the file;
  \<open>header\<close> is that list of names.
\<close>

record 'a CSVReader =
  schema :: "string list"
  header :: "string list"
  reader_records :: "'a arrow_record list"
  reader_err :: bool

text \<open>\<^verbatim>\<open>ReadAll\<close> (super.go): every batch is retained and appended; then the error check.\<close>

fun ReadAll_loop :: "'a arrow_record list \<Rightarrow> 'a arrow_record list \<Rightarrow> 'a arrow_record list" where
  "ReadAll_loop [] records = records"
| "ReadAll_loop (rec # rest) records = ReadAll_loop rest (records @ [rec])"

definition ReadAll :: "'a CSVReader \<Rightarrow> error + 'a arrow_record list" where
  "ReadAll cr =
     (let records = ReadAll_loop (reader_records cr) [] in
      if reader_err cr then Inl ReadError else Inr records)"

text \<open>The search for the column index: the first field with the name.\<close>

fun find_column :: "string list \<Rightarrow> string \<Rightarrow> nat \<Rightarrow> nat option" where
  "find_column [] columnName i = None"
| "find_column (field # rest) columnName i =
     (if field = columnName then Some i else find_column rest columnName (i + 1))"

text \<open>The loop of super.go that collects one chunk per batch.\<close>

fun collect_chunks :: "'a arrow_record list \<Rightarrow> nat \<Rightarrow> 'a option list list \<Rightarrow>
    error + 'a option list list" where
  "collect_chunks [] columnIndex chunks = Inr chunks"
| "collect_chunks (rec # records) columnIndex chunks =
     (if columnIndex \<ge> NumCols rec then Inl ColumnIndexError
      else collect_chunks records columnIndex (chunks @ [rec ! columnIndex]))"

text \<open>
  \<^verbatim>\<open>ReadSingleColumn\<close> of super.go. With one chunk it returns that chunk; with several
  it builds a chunked array, releases it, and returns the first chunk.
\<close>

definition ReadSingleColumn :: "'a CSVReader \<Rightarrow> string \<Rightarrow> error + 'a option list" where
  "ReadSingleColumn cr columnName =
     (case ReadAll cr of
        Inl err \<Rightarrow> Inl err
      | Inr records \<Rightarrow>
          if length records = 0 then Inl NoRecordsError
          else
            (case find_column (schema cr) columnName 0 of
               None \<Rightarrow> Inl ColumnNotFoundError
             | Some columnIndex \<Rightarrow>
                 (case collect_chunks records columnIndex [] of
                    Inl err \<Rightarrow> Inl err
                  | Inr chunks \<Rightarrow>
                      if length chunks = 1 then Inr (chunks ! 0)
                      else Inr (chunks ! 0))))"

text \<open>
  \<^verbatim>\<open>ReadSingleColumn\<close> of the package csvreader. The batches arrive over a channel in
  the order the reader yields them; the context is \<^verbatim>\<open>context.Background()\<close>, which is
  never cancelled, so the loop sees every batch. The column is looked up by name in the
  schema each batch carries (\<^verbatim>\<open>rec.Schema().FieldIndices\<close>, first index), in every batch;
  \<^verbatim>\<open>rec.Column\<close> panics on an index that the batch does not have. The read error is
  looked at after the loop. \<^verbatim>\<open>array.Concatenate\<close> joins the chunks in order.
\<close>

fun chunk_loop :: "string list \<Rightarrow> 'a arrow_record list \<Rightarrow> string \<Rightarrow> 'a option list list \<Rightarrow>
    error + 'a option list list" where
  "chunk_loop sch [] columnName chunks = Inr chunks"
| "chunk_loop sch (rec # recs) columnName chunks =
     (case find_column sch columnName 0 of
        None \<Rightarrow> Inl ColumnNotFoundError
      | Some idx \<Rightarrow>
          if idx \<ge> NumCols rec then Inl IndexPanic
          else chunk_loop sch recs columnName (chunks @ [rec ! idx]))"

definition Concatenate :: "'a option list list \<Rightarrow> 'a option list" where
  "Concatenate chunks = concat chunks"

definition ReadSingleColumn_csvreader :: "'a CSVReader \<Rightarrow> string \<Rightarrow> error + 'a option list" where
  "ReadSingleColumn_csvreader cr columnName =
     (case chunk_loop (header cr) (reader_records cr) columnName [] of
        Inl err \<Rightarrow> Inl err
      | Inr chunks \<Rightarrow>
          if reader_err cr then Inl ReadError
          else if length chunks = 0 then Inl NoRecordsError
          else Inr (Concatenate chunks))"

text \<open>What the specification asks of an extractor: every batch's slice, in batch order.\<close>

definition extracted_column :: "'a arrow_record list \<Rightarrow> nat \<Rightarrow> 'a option list" where
  "extracted_column records columnIndex = concat (map (\<lambda>rec. rec ! columnIndex) records)"

section \<open>The variant on compute kernels (\<^verbatim>\<open>DetectAnomalies\<close> with \<^verbatim>\<open>compute.CallFunction\<close>)\<close>

text \<open>The kinds of array of the data model; the variant accepts \<open>Float64\<close> only.\<close>

datatype arrow_array =
    Float64 "real option list"
  | Float32 "real option list"
  | Int64 "int option list"
  | Int32 "int option list"
  | Text "string option list"

record Result =
  Mask :: boolean_array
  Zscore :: float64_array

text \<open>\<^verbatim>\<open>computeMeanAndVariance\<close>: the first loop, then the loop of squared differences.\<close>

fun mean_loop :: "float64_array \<Rightarrow> real \<Rightarrow> real \<Rightarrow> nat \<Rightarrow> real \<times> real \<times> nat" where
  "mean_loop [] sumv sumsq count = (sumv, sumsq, count)"
| "mean_loop (None # col) sumv sumsq count = mean_loop col sumv sumsq count"
| "mean_loop (Some v # col) sumv sumsq count =
     mean_loop col (sumv + v) (sumsq + v * v) (count + 1)"

fun variance_loop :: "float64_array \<Rightarrow> real \<Rightarrow> real \<Rightarrow> real" where
  "variance_loop [] mean variance = variance"
| "variance_loop (None # col) mean variance = variance_loop col mean variance"
| "variance_loop (Some v # col) mean variance =
     (let diff = v - mean in variance_loop col mean (variance + diff * diff))"

definition computeMeanAndVariance :: "float64_array \<Rightarrow> real \<times> real" where
  "computeMeanAndVariance col =
     (let (sumv, sumsq, count) = mean_loop col 0 0 0 in
      if count = 0 then (0, 0)
      else
        let mean = sumv / real count;
            variance = variance_loop col mean 0
        in (mean, variance / real count))"

text \<open>
  The kernels of the Arrow compute library, array against scalar: they work row by row
  and a null row stays null. What \<^verbatim>\<open>divide\<close> returns for a zero divisor is not fixed
  by the repository; it is the parameter \<open>dz\<close>. The variant wraps an error of the kernel
  as "divide computation: ...".
\<close>

definition compute_subtract :: "float64_array \<Rightarrow> real \<Rightarrow> float64_array" where
  "compute_subtract arr s = map (map_option (\<lambda>v. v - s)) arr"

definition compute_divide ::
  "(float64_array \<Rightarrow> error + float64_array) \<Rightarrow> float64_array \<Rightarrow> real \<Rightarrow> error + float64_array" where
  "compute_divide dz arr s = (if s = 0 then dz arr else Inr (map (map_option (\<lambda>v. v / s)) arr))"

definition compute_abs :: "float64_array \<Rightarrow> float64_array" where
  "compute_abs arr = map (map_option abs) arr"

definition compute_greater_equal :: "float64_array \<Rightarrow> real \<Rightarrow> boolean_array" where
  "compute_greater_equal arr s = map (map_option (\<lambda>v. v \<ge> s)) arr"

definition DetectAnomalies_compute ::
  "(float64_array \<Rightarrow> error + float64_array) \<Rightarrow> Context \<Rightarrow> arrow_array \<Rightarrow> real \<Rightarrow> error + Result" where
  "DetectAnomalies_compute dz ctx col threshold =
     (case col of
        Float64 floatCol \<Rightarrow>
          let (mean, variance) = computeMeanAndVariance floatCol;
              stdDev = sqrt variance;
              diffResult = compute_subtract floatCol mean
          in (case compute_divide dz diffResult stdDev of
                Inl err \<Rightarrow> Inl ComputeError
              | Inr zscoreResult \<Rightarrow>
                  let absResult = compute_abs zscoreResult;
                      compResult = compute_greater_equal absResult threshold
                  in Inr \<lparr>Mask = compResult, Zscore = zscoreResult\<rparr>)
      | _ \<Rightarrow> Inl NotFloat64Error)"

section \<open>The loops compute the population statistics\<close>

lemma sum_loop_eq:
  "sum_loop col s n = (s + sum_list (non_null col), n + length (non_null col))"
  by (induction col s n rule: sum_loop.induct) simp_all

lemma non_null_Nil_iff: "non_null col = [] \<longleftrightarrow> (\<forall>x \<in> set col. x = None)"
  by (induction col rule: non_null.induct) simp_all

lemma set_non_null: "set (non_null col) = {v. Some v \<in> set col}"
  by (induction col rule: non_null.induct) auto

lemma sumSquares_diff_loop:
  "sumSquares_loop (diff_loop col mean) s =
     s + sum_list (map (\<lambda>v. (v - mean)\<^sup>2) (non_null col))"
  by (induction col arbitrary: s rule: non_null.induct) (simp_all add: power2_eq_square)

lemma length_diff_loop: "length (diff_loop col mean) = length col"
  by (induction col mean rule: diff_loop.induct) simp_all

lemma length_zscore_loop: "length (zscore_loop diffs' stddev) = length diffs'"
  by (induction diffs' stddev rule: zscore_loop.induct) simp_all

lemma length_mask_loop: "length (mask_loop zscores threshold) = length zscores"
  by (induction zscores threshold rule: mask_loop.induct) simp_all

lemma length_false_loop: "length (false_loop col) = length col"
  by (induction col) simp_all

lemma false_loop_eq: "false_loop col = replicate (length col) (Some False)"
  by (induction col) simp_all

lemma mask_loop_eq:
  "mask_loop (zscore_loop (diff_loop col mean) stddev) threshold =
     map (mask_bit mean stddev threshold) col"
  by (induction col rule: non_null.induct) (simp_all add: mask_bit_def zscore_def)

text \<open>The detector, in terms of the population statistics.\<close>

lemma DetectAnomalies_empty: "DetectAnomalies ctx [] threshold = Inl EmptyInputError"
  by (simp add: DetectAnomalies_def)

lemma DetectAnomalies_all_null:
  assumes "col \<noteq> []" and "non_null col = []"
  shows "DetectAnomalies ctx col threshold = Inl NoValidDataError"
  using assms by (simp add: DetectAnomalies_def sum_loop_eq)

lemma DetectAnomalies_valid:
  assumes "non_null col \<noteq> []"
  shows "\<exists>mean stddev. pop_mean col = Some mean \<and> pop_stddev col = Some stddev \<and>
     DetectAnomalies ctx col threshold =
       (if stddev = 0 then Inr (false_loop col, [])
        else Inr (map (mask_bit mean stddev threshold) col,
                  anomaly_loop col (map (mask_bit mean stddev threshold) col)))"
proof -
  from assms have ne: "col \<noteq> []" by auto
  from assms have len: "length (non_null col) \<noteq> 0" by simp
  show ?thesis
    using ne len assms
    by (simp add: DetectAnomalies_def sum_loop_eq sumSquares_diff_loop mask_loop_eq
        pop_mean_def pop_variance_def pop_stddev_def Let_def)
qed

section \<open>Error handling of the direct detector\<close>

text \<open>
  The direct detector returns an error and no result exactly when its precondition fails:
  an empty column gives \<open>EmptyInputError\<close>, a non-empty column whose rows are all null
  gives \<open>NoValidDataError\<close>, every other column gives a result and no error. The two
  guards read the length and the validity bits only.
\<close>

lemma DetectAnomalies_errors:
  "(col = [] \<longrightarrow> DetectAnomalies ctx col threshold = Inl EmptyInputError) \<and>
   (col \<noteq> [] \<and> (\<forall>x \<in> set col. x = None) \<longrightarrow>
      DetectAnomalies ctx col threshold = Inl NoValidDataError) \<and>
   (col \<noteq> [] \<and> (\<exists>v. Some v \<in> set col) \<longrightarrow>
      (\<exists>m a. DetectAnomalies ctx col threshold = Inr (m, a))) \<and>
   ((\<exists>e. DetectAnomalies ctx col threshold = Inl e) \<longleftrightarrow>
      (col = [] \<or> (\<forall>x \<in> set col. x = None)))"
proof (cases "col = []")
  case True
  then show ?thesis by (simp add: DetectAnomalies_empty)
next
  case ne: False
  show ?thesis
  proof (cases "non_null col = []")
    case True
    then have "\<forall>x \<in> set col. x = None" by (simp add: non_null_Nil_iff)
    moreover have "DetectAnomalies ctx col threshold = Inl NoValidDataError"
      using ne True by (rule DetectAnomalies_all_null)
    ultimately show ?thesis using ne by auto
  next
    case False
    then have ex: "\<exists>v. Some v \<in> set col"
      by (metis non_null_Nil_iff option.exhaust)
    from DetectAnomalies_valid [OF False, of ctx threshold]
    have "\<exists>m a. DetectAnomalies ctx col threshold = Inr (m, a)"
      by (auto split: if_splits)
    then show ?thesis using ne ex by auto
  qed
qed

lemma DetectAnomalies_errors_witness:
  "DetectAnomalies Background [] 3 = Inl EmptyInputError \<and>
   DetectAnomalies Background [None, None] 3 = Inl NoValidDataError \<and>
   (\<exists>m a. DetectAnomalies Background [Some 100, Some 100, Some 100] 3 = Inr (m, a))"
  using DetectAnomalies_errors [of "[]" Background 3]
    DetectAnomalies_errors [of "[None, None]" Background 3]
    DetectAnomalies_errors [of "[Some 100, Some 100, Some 100]" Background 3]
  by simp

section \<open>The context argument\<close>

text \<open>
  C10: the direct detector does not depend on its context argument. For every column and
  threshold, any two contexts (a cancelled one included) give the same outcome, mask and
  anomaly list included, and the outcome is never a cancellation error.
\<close>

theorem DetectAnomalies_context_independent:
  "DetectAnomalies ctx1 col threshold = DetectAnomalies ctx2 col threshold \<and>
   DetectAnomalies ctx1 col threshold \<noteq> Inl CanceledError"
proof
  show "DetectAnomalies ctx1 col threshold = DetectAnomalies ctx2 col threshold"
    by (simp add: DetectAnomalies_def)
  show "DetectAnomalies ctx1 col threshold \<noteq> Inl CanceledError"
    by (simp add: DetectAnomalies_def Let_def split: prod.splits)
qed

section \<open>Facts about the loops of the detector\<close>

lemma anomaly_loop_eq:
  "anomaly_loop col (map (mask_bit mean stddev threshold) col) =
     map Some (filter (\<lambda>v. zscore mean stddev v > threshold) (non_null col))"
  by (induction col rule: non_null.induct) (simp_all add: mask_bit_def)

lemma flagged_mask_eq:
  "flagged (map (mask_bit mean stddev threshold) col) =
     length (filter (\<lambda>v. zscore mean stddev v > threshold) (non_null col))"
  by (induction col rule: non_null.induct) (simp_all add: mask_bit_def flagged_def)

lemma flagged_false_loop: "flagged (false_loop col) = 0"
  by (induction col) (simp_all add: flagged_def)

lemma non_null_drop_nulls: "non_null (drop_nulls col) = non_null col"
  unfolding drop_nulls_def by (induction col rule: non_null.induct) simp_all

lemma non_null_bits_mask:
  "non_null_bits col (map (mask_bit mean stddev threshold) col) =
     map (mask_bit mean stddev threshold) (drop_nulls col)"
  unfolding drop_nulls_def by (induction col rule: non_null.induct) simp_all

lemma non_null_bits_false:
  "non_null_bits col (false_loop col) = false_loop (drop_nulls col)"
  unfolding drop_nulls_def by (induction col rule: non_null.induct) simp_all

lemma pop_mean_drop_nulls: "pop_mean (drop_nulls col) = pop_mean col"
  by (simp add: pop_mean_def non_null_drop_nulls)

lemma pop_stddev_drop_nulls: "pop_stddev (drop_nulls col) = pop_stddev col"
  by (simp add: pop_stddev_def pop_variance_def pop_mean_drop_nulls non_null_drop_nulls
      split: option.splits)

lemma sum_loop_drop_nulls: "sum_loop (drop_nulls col) s n = sum_loop col s n"
  by (simp add: sum_loop_eq non_null_drop_nulls)

lemma filter_mono_length:
  "(\<And>x. P x \<Longrightarrow> Q x) \<Longrightarrow> length (filter P xs) \<le> length (filter Q xs)"
  by (induction xs) auto

lemma pop_mean_SomeD: "pop_mean col = Some mean \<Longrightarrow> non_null col \<noteq> []"
  by (auto simp: pop_mean_def split: if_splits)

text \<open>
  The outcome of the detector on a column with a non-null value, in terms of the
  population statistics: the mask is \<open>mask_bit\<close> row by row, the anomaly list holds the
  non-null values whose z-score exceeds the threshold, in row order.
\<close>

lemma DetectAnomalies_stats:
  assumes "pop_mean col = Some mean" and "pop_stddev col = Some stddev"
  shows "DetectAnomalies ctx col threshold =
       (if stddev = 0 then Inr (false_loop col, [])
        else Inr (map (mask_bit mean stddev threshold) col,
                  map Some (filter (\<lambda>v. zscore mean stddev v > threshold) (non_null col))))"
  using DetectAnomalies_valid [OF pop_mean_SomeD [OF assms(1)], of ctx threshold] assms
  by (auto simp: anomaly_loop_eq)

section \<open>Null rows\<close>

text \<open>
  C6: null rows never influence or appear in the output of the detector. Every null row has
  mask bit \<open>false\<close> and the anomaly list holds no null. A column with null rows inserted
  at any positions is a column \<open>col\<close> whose \<open>drop_nulls col\<close> is the data without them:
  detection on \<open>drop_nulls col\<close> gives the same anomaly list and, as its mask, the mask
  bits of the non-null rows of \<open>col\<close>; the sum and count behind the mean, the sum of
  squares behind the variance, the mean and the standard deviation are the same.
\<close>

theorem DetectAnomalies_null_exclusion:
  assumes "DetectAnomalies ctx col threshold = Inr (m, a)"
  shows "(\<forall>i < length col. col ! i = None \<longrightarrow> m ! i = Some False) \<and>
     None \<notin> set a \<and>
     DetectAnomalies ctx (drop_nulls col) threshold = Inr (non_null_bits col m, a) \<and>
     sum_loop (drop_nulls col) 0 0 = sum_loop col 0 0 \<and>
     (\<forall>mean. sumSquares_loop (diff_loop (drop_nulls col) mean) 0 =
        sumSquares_loop (diff_loop col mean) 0) \<and>
     pop_mean (drop_nulls col) = pop_mean col \<and>
     pop_stddev (drop_nulls col) = pop_stddev col"
proof -
  have ne: "non_null col \<noteq> []"
  proof
    assume e: "non_null col = []"
    show False
    proof (cases "col = []")
      case True
      with assms show False by (simp add: DetectAnomalies_empty)
    next
      case False
      from DetectAnomalies_all_null [OF False e, of ctx threshold] assms show False by simp
    qed
  qed
  then obtain mean where mean: "pop_mean col = Some mean"
    by (simp add: pop_mean_def)
  then obtain stddev where sd: "pop_stddev col = Some stddev"
    by (simp add: pop_stddev_def pop_variance_def)
  have mean': "pop_mean (drop_nulls col) = Some mean"
    using mean by (simp add: pop_mean_drop_nulls)
  have sd': "pop_stddev (drop_nulls col) = Some stddev"
    using sd by (simp add: pop_stddev_drop_nulls)
  note r = DetectAnomalies_stats [OF mean sd, of ctx threshold]
  note r' = DetectAnomalies_stats [OF mean' sd', of ctx threshold]
  show ?thesis
  proof (cases "stddev = 0")
    case True
    with r assms have m: "m = false_loop col" and a: "a = []" by simp_all
    show ?thesis
      using r' True m a mean sd mean' sd'
      by (simp add: non_null_bits_false sum_loop_drop_nulls sumSquares_diff_loop
          non_null_drop_nulls)
        (simp add: false_loop_eq)
  next
    case False
    with r assms have m: "m = map (mask_bit mean stddev threshold) col"
      and a: "a = map Some (filter (\<lambda>v. zscore mean stddev v > threshold) (non_null col))"
      by simp_all
    show ?thesis
      using r' False m a mean sd mean' sd'
      by (auto simp: non_null_bits_mask sum_loop_drop_nulls non_null_drop_nulls mask_bit_def
          sumSquares_diff_loop)
  qed
qed

theorem DetectAnomalies_null_exclusion_witness:
  "DetectAnomalies Background [Some 0, None, Some 2, None] (1/2) =
     Inr ([Some True, Some False, Some True, Some False], [Some 0, Some 2]) \<and>
   DetectAnomalies Background (drop_nulls [Some 0, None, Some 2, None]) (1/2) =
     Inr ([Some True, Some True], [Some 0, Some 2])"
proof -
  have r: "DetectAnomalies Background [Some 0, None, Some 2, None] (1/2) =
     Inr ([Some True, Some False, Some True, Some False], [Some 0, Some 2])"
    by (simp add: DetectAnomalies_def)
  from DetectAnomalies_null_exclusion [OF r] r show ?thesis by simp
qed

section \<open>Monotonicity in the threshold\<close>

text \<open>
  C8: for a fixed column and thresholds \<open>t1 \<le> t2\<close>, the detector flags at \<open>t2\<close> no
  more anomalies than at \<open>t1\<close>, counted in the anomaly list and in the mask. Whether the
  detector fails does not depend on the threshold.
\<close>

theorem DetectAnomalies_threshold_monotone:
  assumes "t1 \<le> t2"
  shows "case DetectAnomalies ctx col t1 of
       Inl e \<Rightarrow> DetectAnomalies ctx col t2 = Inl e
     | Inr (m1, a1) \<Rightarrow>
         (\<exists>m2 a2. DetectAnomalies ctx col t2 = Inr (m2, a2) \<and>
            length a2 \<le> length a1 \<and> flagged m2 \<le> flagged m1)"
proof (cases "non_null col = []")
  case True
  then show ?thesis
    by (cases "col = []") (simp_all add: DetectAnomalies_empty DetectAnomalies_all_null)
next
  case False
  then obtain mean where mean: "pop_mean col = Some mean"
    by (simp add: pop_mean_def)
  then obtain stddev where sd: "pop_stddev col = Some stddev"
    by (simp add: pop_stddev_def pop_variance_def)
  have mono: "length (filter (\<lambda>v. zscore mean stddev v > t2) (non_null col))
      \<le> length (filter (\<lambda>v. zscore mean stddev v > t1) (non_null col))"
    using assms by (intro filter_mono_length) simp
  show ?thesis
    using mono
    by (simp add: DetectAnomalies_stats [OF mean sd] flagged_mask_eq)
qed

theorem DetectAnomalies_threshold_monotone_witness:
  "(1::real) \<le> 2 \<and>
   (\<exists>m1 a1 m2 a2. DetectAnomalies Background [Some 0, Some 2] (1/2) = Inr (m1, a1) \<and>
      DetectAnomalies Background [Some 0, Some 2] 1 = Inr (m2, a2) \<and>
      length a2 \<le> length a1 \<and> flagged m2 \<le> flagged m1 \<and> length a1 = 2 \<and> length a2 = 0)"
proof -
  have r: "DetectAnomalies Background [Some 0, Some 2] (1/2) =
     Inr ([Some True, Some True], [Some 0, Some 2])"
    by (simp add: DetectAnomalies_def)
  have r2: "DetectAnomalies Background [Some 0, Some 2] 1 =
     Inr ([Some False, Some False], [])"
    by (simp add: DetectAnomalies_def)
  from DetectAnomalies_threshold_monotone [of "1/2" 1 Background "[Some 0, Some 2]"] r r2
  show ?thesis by simp
qed

section \<open>Concrete scenario 1\<close>

text \<open>
  The column \<open>[1, 2, 3, 100, 2]\<close> has mean \<open>21.6\<close> and variance \<open>1537.04\<close>; its
  standard deviation lies between \<open>39\<close> and \<open>39.3\<close>.
\<close>

lemma scenario1_stddev_lower: "39 < sqrt (38426 / 25 :: real)"
  by (rule real_less_rsqrt) (simp add: power2_eq_square)

lemma scenario1_stddev_upper: "sqrt (38426 / 25 :: real) < 393 / 10"
  by (rule real_less_lsqrt) (simp_all add: power2_eq_square)

text \<open>
  C9: on the column \<open>[1, 2, 3, 100, 2]\<close> (no nulls) with threshold \<open>1.99\<close> the detector
  flags exactly index 3: the mask is true at index 3 and false at indices 0, 1, 2 and 4,
  and the anomaly list is \<open>[100]\<close>.
\<close>

theorem DetectAnomalies_scenario1:
  "DetectAnomalies ctx [Some 1, Some 2, Some 3, Some 100, Some 2] (199 / 100) =
     Inr ([Some False, Some False, Some False, Some True, Some False], [Some 100])"
proof -
  let ?col = "[Some (1::real), Some 2, Some 3, Some 100, Some 2]"
  let ?s = "sqrt (38426 / 25 :: real)"
  note lo = scenario1_stddev_lower and hi = scenario1_stddev_upper
  from lo have pos: "0 < ?s" by linarith
  have m: "pop_mean ?col = Some (108 / 5)" by (simp add: pop_mean_def)
  have sd: "pop_stddev ?col = Some ?s"
    by (simp add: pop_stddev_def pop_variance_def pop_mean_def power2_eq_square)
  have z100: "zscore (108 / 5) ?s 100 > 199 / 100"
  proof -
    have "199 / 100 * ?s < 392 / 5" using hi by linarith
    then have "199 / 100 < (392 / 5) / ?s" using pos by (simp add: pos_less_divide_eq)
    then show ?thesis by (simp add: zscore_def)
  qed
  have small: "\<not> 199 / 100 < d / ?s" if "d \<le> 103 / 5" for d :: real
  proof -
    have "d \<le> 199 / 100 * ?s" using lo that by linarith
    then have "d / ?s \<le> 199 / 100" using pos by (simp add: pos_divide_le_eq)
    then show ?thesis by simp
  qed
  have z1: "\<not> zscore (108 / 5) ?s 1 > 199 / 100"
    using small [of "103 / 5"] by (simp add: zscore_def)
  have z2: "\<not> zscore (108 / 5) ?s 2 > 199 / 100"
    using small [of "98 / 5"] by (simp add: zscore_def)
  have z3: "\<not> zscore (108 / 5) ?s 3 > 199 / 100"
    using small [of "93 / 5"] by (simp add: zscore_def)
  from pos have nz: "?s \<noteq> 0" by simp
  show ?thesis
    using nz z1 z2 z3 z100
    by (simp add: DetectAnomalies_stats [OF m sd] mask_bit_def)
qed

section \<open>The column extractors\<close>

lemma ReadAll_loop_eq: "ReadAll_loop recs records = records @ recs"
  by (induction recs arbitrary: records) simp_all

lemma collect_chunks_ok:
  assumes "\<forall>rec \<in> set recs. idx < NumCols rec"
  shows "collect_chunks recs idx chunks = Inr (chunks @ map (\<lambda>rec. rec ! idx) recs)"
  using assms by (induction recs arbitrary: chunks) simp_all

lemma chunk_loop_ok:
  assumes "find_column sch name 0 = Some idx" and "\<forall>rec \<in> set recs. idx < NumCols rec"
  shows "chunk_loop sch recs name chunks = Inr (chunks @ map (\<lambda>rec. rec ! idx) recs)"
  using assms by (induction recs arbitrary: chunks) simp_all

text \<open>
  On a reader without error whose batches all have the column, the extractor of super.go
  returns the column of the first batch, whatever the number of batches.
\<close>

lemma ReadSingleColumn_first_chunk:
  assumes "find_column (schema cr) name 0 = Some idx"
    and "\<forall>rec \<in> set (reader_records cr). idx < NumCols rec"
    and "\<not> reader_err cr" and "reader_records cr \<noteq> []"
  shows "ReadSingleColumn cr name = Inr (hd (reader_records cr) ! idx)"
  using assms
  by (cases "reader_records cr")
    (simp_all add: ReadSingleColumn_def ReadAll_def ReadAll_loop_eq collect_chunks_ok)

text \<open>
  On the same readers the extractor of the package csvreader returns every batch's slice
  of the column, in batch order; its length is the total row count.
\<close>

lemma length_extracted_column:
  "length (extracted_column records idx) = sum_list (map (\<lambda>rec. length (rec ! idx)) records)"
  by (simp add: extracted_column_def length_concat comp_def)

lemma ReadSingleColumn_csvreader_concat:
  assumes "find_column (header cr) name 0 = Some idx"
    and "\<forall>rec \<in> set (reader_records cr). idx < NumCols rec"
    and "\<not> reader_err cr" and "reader_records cr \<noteq> []"
  shows "ReadSingleColumn_csvreader cr name = Inr (extracted_column (reader_records cr) idx)"
  using assms
  by (simp add: ReadSingleColumn_csvreader_def chunk_loop_ok Concatenate_def
      extracted_column_def)

text \<open>
  C2: an extractor run over a multi-batch input returns the concatenation of every batch's
  slice of the target column, in batch order, and the length of the result is the total row
  count. The extractor of the package csvreader does so. The extractor of super.go does
  not: on two batches holding \<open>[1, 2]\<close> and \<open>[3]\<close> it returns \<open>[1, 2]\<close>, the first
  batch only, where the concatenation is \<open>[1, 2, 3]\<close>.
\<close>

theorem ReadSingleColumn_two_batches:
  "ReadSingleColumn
     \<lparr>schema = [''value''], header = [''value''],
      reader_records = [[[Some 1, Some 2]], [[Some 3]]],
      reader_err = False\<rparr> ''value'' = Inr [Some (1::real), Some 2] \<and>
   extracted_column [[[Some 1, Some 2]], [[Some 3]]] 0 = [Some (1::real), Some 2, Some 3] \<and>
   ReadSingleColumn_csvreader
     \<lparr>schema = [''value''], header = [''value''],
      reader_records = [[[Some 1, Some 2]], [[Some 3]]],
      reader_err = False\<rparr> ''value'' = Inr [Some (1::real), Some 2, Some 3]"
  by (simp add: ReadSingleColumn_def ReadAll_def ReadSingleColumn_csvreader_def
      extracted_column_def Concatenate_def NumCols_def)

section \<open>The variant on compute kernels against the direct detector\<close>

text \<open>
  C3: the variants on the compute engine are to return the mask of the direct two-pass
  detector. The variant that calls \<^verbatim>\<open>greater_equal\<close> does not: on the column
  \<open>[0, 2]\<close> (mean 1, standard deviation 1, both z-scores exactly 1) with threshold 1 it
  flags both rows, and the direct detector, which compares with \<open>>\<close>, flags none. The
  z-scores it returns are signed.
\<close>

theorem DetectAnomalies_compute_boundary:
  "DetectAnomalies_compute dz ctx (Float64 [Some 0, Some 2]) 1 =
     Inr \<lparr>Mask = [Some True, Some True], Zscore = [Some (- 1), Some 1]\<rparr> \<and>
   DetectAnomalies ctx [Some 0, Some 2] 1 = Inr ([Some False, Some False], [])"
  by (simp add: DetectAnomalies_compute_def computeMeanAndVariance_def compute_subtract_def
      compute_divide_def compute_abs_def compute_greater_equal_def DetectAnomalies_def)

section \<open>Non-positive thresholds\<close>






section \<open>The variant on compute kernels at the threshold and on an empty column\<close>

text \<open>
  C1: the mask bit of a non-null row is \<open>abs(value - mean) / stddev > threshold\<close>, strictly,
  so that a value whose z-score equals the threshold is not flagged. The variant on compute
  kernels, which the claim cites beside the direct detector, compares with
  \<^verbatim>\<open>greater_equal\<close>: on the column \<open>[1, 3]\<close> (mean 2, standard deviation 1, both z-scores
  exactly equal to the threshold 1) it flags both rows.
\<close>

theorem DetectAnomalies_compute_flags_at_threshold:
  "pop_mean [Some 1, Some 3] = Some 2 \<and> pop_stddev [Some 1, Some 3] = Some 1 \<and>
   zscore 2 1 1 = 1 \<and> zscore 2 1 3 = 1 \<and>
   DetectAnomalies_compute dz ctx (Float64 [Some 1, Some 3]) 1 =
     Inr \<lparr>Mask = [Some True, Some True], Zscore = [Some (- 1), Some 1]\<rparr>"
  by (simp add: pop_mean_def pop_stddev_def pop_variance_def zscore_def
      DetectAnomalies_compute_def computeMeanAndVariance_def compute_subtract_def
      compute_divide_def compute_abs_def compute_greater_equal_def)

text \<open>
  C4: an empty column is to give \<open>EmptyInputError\<close> and a non-empty all-null column
  \<open>NoValidDataError\<close>. The direct detector does. The variant on compute kernels, which
  the claim cites too, has neither guard: on the empty column it takes mean and variance
  \<open>0\<close>, divides the empty array of differences by the standard deviation \<open>0\<close>, and its
  outcome is what the divide kernel returns there, a result or the wrapped kernel error;
  on no kernel is it \<open>EmptyInputError\<close>, nor \<open>NoValidDataError\<close> on an all-null column.
\<close>

theorem DetectAnomalies_compute_no_guard:
  "DetectAnomalies_compute dz ctx (Float64 []) threshold =
     (case dz [] of
        Inl err \<Rightarrow> Inl ComputeError
      | Inr zs \<Rightarrow>
          Inr \<lparr>Mask = compute_greater_equal (compute_abs zs) threshold, Zscore = zs\<rparr>) \<and>
   DetectAnomalies_compute dz ctx (Float64 []) threshold \<noteq> Inl EmptyInputError \<and>
   DetectAnomalies_compute dz ctx (Float64 [None, None]) threshold \<noteq> Inl NoValidDataError \<and>
   DetectAnomalies ctx [] threshold = Inl EmptyInputError \<and>
   DetectAnomalies ctx [None, None] threshold = Inl NoValidDataError"
  by (simp add: DetectAnomalies_compute_def computeMeanAndVariance_def compute_subtract_def
      compute_divide_def DetectAnomalies_def split: sum.splits)

end
